theory Spec2Isabelle
  imports Complex_Main
begin

section \<open>JavaScript values used by the converter\<close>

text \<open>
  A JavaScript number is modelled as an exact rational, the two infinities or NaN.
  Rounding to IEEE doubles, overflow of huge literals and the sign of zero are outside
  the model. Strings are lists of 8-bit characters; the source's strings are UTF-16, and
  the model covers their ASCII range (white space is the ASCII white space).
\<close>

datatype jsnum = NaN | Fin rat | PInf | NInf

text \<open>Truthiness of a number: \<open>0\<close> and \<open>NaN\<close> are falsy.\<close>

fun truthy :: "jsnum \<Rightarrow> bool" where
  "truthy NaN = False"
| "truthy (Fin q) = (q \<noteq> 0)"
| "truthy PInf = True"
| "truthy NInf = True"

text \<open>\<open>x / c\<close> for a positive finite constant \<open>c\<close> (the source divides by 255 and by 100).\<close>

fun jdivc :: "jsnum \<Rightarrow> rat \<Rightarrow> jsnum" where
  "jdivc NaN c = NaN"
| "jdivc (Fin q) c = Fin (q / c)"
| "jdivc PInf c = PInf"
| "jdivc NInf c = NInf"

fun jneg :: "jsnum \<Rightarrow> jsnum" where
  "jneg NaN = NaN"
| "jneg (Fin q) = Fin (- q)"
| "jneg PInf = NInf"
| "jneg NInf = PInf"

text \<open>The sign of a number that is not NaN: \<open>-1\<close>, \<open>0\<close> or \<open>1\<close>.\<close>

fun jsign :: "jsnum \<Rightarrow> int" where
  "jsign NaN = 0"
| "jsign (Fin q) = (if q < 0 then - 1 else if q = 0 then 0 else 1)"
| "jsign PInf = 1"
| "jsign NInf = - 1"

fun jmul :: "jsnum \<Rightarrow> jsnum \<Rightarrow> jsnum" where
  "jmul NaN y = NaN"
| "jmul x NaN = NaN"
| "jmul (Fin a) (Fin b) = Fin (a * b)"
| "jmul x y =
     (if jsign x * jsign y = 0 then NaN else if jsign x * jsign y > 0 then PInf else NInf)"

fun jsub :: "jsnum \<Rightarrow> jsnum \<Rightarrow> jsnum" where
  "jsub NaN y = NaN"
| "jsub x NaN = NaN"
| "jsub (Fin a) (Fin b) = Fin (a - b)"
| "jsub (Fin a) PInf = NInf"
| "jsub (Fin a) NInf = PInf"
| "jsub PInf PInf = NaN"
| "jsub NInf NInf = NaN"
| "jsub PInf y = PInf"
| "jsub NInf y = NInf"

text \<open>\<open>x < y\<close> and \<open>x > y\<close>: false as soon as one side is NaN.\<close>

fun jlt :: "jsnum \<Rightarrow> jsnum \<Rightarrow> bool" where
  "jlt NaN y = False"
| "jlt x NaN = False"
| "jlt (Fin a) (Fin b) = (a < b)"
| "jlt NInf NInf = False"
| "jlt NInf y = True"
| "jlt x PInf = (x \<noteq> PInf)"
| "jlt x NInf = False"
| "jlt PInf y = False"

definition jgt :: "jsnum \<Rightarrow> jsnum \<Rightarrow> bool" where
  "jgt x y = jlt y x"

text \<open>\<open>Math.round\<close>: the nearest integer, a tie going up.\<close>

fun mathRound :: "jsnum \<Rightarrow> jsnum" where
  "mathRound (Fin q) = Fin (of_int \<lfloor>q + 1 / 2\<rfloor>)"
| "mathRound x = x"

subsection \<open>Strings\<close>

definition isWs :: "char \<Rightarrow> bool" where
  "isWs c \<longleftrightarrow> c \<in> set [CHR '' '', CHR 0x09, CHR 0x0A, CHR 0x0B, CHR 0x0C, CHR 0x0D]"

definition isDigit :: "char \<Rightarrow> bool" where
  "isDigit c \<longleftrightarrow> c \<in> set ''0123456789''"

definition isLetter :: "char \<Rightarrow> bool" where
  "isLetter c \<longleftrightarrow>
     c \<in> set ''abcdefghijklmnopqrstuvwxyz'' \<or> c \<in> set ''ABCDEFGHIJKLMNOPQRSTUVWXYZ''"

definition lowerChar :: "char \<Rightarrow> char" where
  "lowerChar c =
     (case map_of (zip ''ABCDEFGHIJKLMNOPQRSTUVWXYZ'' ''abcdefghijklmnopqrstuvwxyz'') c of
        Some d \<Rightarrow> d | None \<Rightarrow> c)"

definition upperChar :: "char \<Rightarrow> char" where
  "upperChar c =
     (case map_of (zip ''abcdefghijklmnopqrstuvwxyz'' ''ABCDEFGHIJKLMNOPQRSTUVWXYZ'') c of
        Some d \<Rightarrow> d | None \<Rightarrow> c)"

definition toLowerCase :: "string \<Rightarrow> string" where
  "toLowerCase s = map lowerChar s"

definition toUpperCase :: "string \<Rightarrow> string" where
  "toUpperCase s = map upperChar s"

definition trim :: "string \<Rightarrow> string" where
  "trim s = rev (dropWhile isWs (rev (dropWhile isWs s)))"

definition startsWith :: "string \<Rightarrow> string \<Rightarrow> bool" where
  "startsWith s p \<longleftrightarrow> take (length p) s = p"

definition endsWith :: "string \<Rightarrow> string \<Rightarrow> bool" where
  "endsWith s p \<longleftrightarrow> length p \<le> length s \<and> drop (length s - length p) s = p"

text \<open>\<open>s.includes(p)\<close>: \<open>p\<close> occurs in \<open>s\<close> as a contiguous run.\<close>

fun includesStr :: "string \<Rightarrow> string \<Rightarrow> bool" where
  "includesStr [] p = (p = [])"
| "includesStr (c # cs) p = (startsWith (c # cs) p \<or> includesStr cs p)"

text \<open>\<open>s.slice(i, j)\<close> for \<open>0 \<le> i \<le> j\<close>.\<close>

definition slice :: "nat \<Rightarrow> nat \<Rightarrow> string \<Rightarrow> string" where
  "slice i j s = take (j - i) (drop i s)"

text \<open>\<open>s.split(c)\<close> for a one-character separator.\<close>

fun splitChar :: "char \<Rightarrow> string \<Rightarrow> string list" where
  "splitChar sep [] = [[]]"
| "splitChar sep (c # cs) =
     (if c = sep then [] # splitChar sep cs
      else (case splitChar sep cs of [] \<Rightarrow> [[c]] | t # ts \<Rightarrow> (c # t) # ts))"

text \<open>\<open>s.split(/\s+/)\<close>: every maximal run of white space is one separator.\<close>

function splitWs :: "string \<Rightarrow> string list" where
  "splitWs [] = [[]]"
| "splitWs (c # cs) =
     (if isWs c then [] # splitWs (dropWhile isWs cs)
      else (case splitWs cs of [] \<Rightarrow> [[c]] | t # ts \<Rightarrow> (c # t) # ts))"
  by pat_completeness auto
termination
  by (relation "measure length") (auto simp: le_imp_less_Suc length_dropWhile_le)

text \<open>\<open>s.split(/\s+|,/)\<close>: a run of white space or a single comma separates.\<close>

function splitWsComma :: "string \<Rightarrow> string list" where
  "splitWsComma [] = [[]]"
| "splitWsComma (c # cs) =
     (if isWs c then [] # splitWsComma (dropWhile isWs cs)
      else if c = CHR '','' then [] # splitWsComma cs
      else (case splitWsComma cs of [] \<Rightarrow> [[c]] | t # ts \<Rightarrow> (c # t) # ts))"
  by pat_completeness auto
termination
  by (relation "measure length") (auto simp: le_imp_less_Suc length_dropWhile_le)

text \<open>\<open>s.match(/\d+/g)\<close>: the maximal runs of digits, left to right (\<open>null\<close> is the
  empty list here; the callers test it).\<close>

function matchDigits :: "string \<Rightarrow> string list" where
  "matchDigits [] = []"
| "matchDigits (c # cs) =
     (if isDigit c then (c # takeWhile isDigit cs) # matchDigits (dropWhile isDigit cs)
      else matchDigits cs)"
  by pat_completeness auto
termination
  by (relation "measure length") (auto simp: le_imp_less_Suc length_dropWhile_le)

text \<open>\<open>xs[i]\<close> on an array: \<open>undefined\<close> out of range.\<close>

definition nth_opt :: "'a list \<Rightarrow> nat \<Rightarrow> 'a option" where
  "nth_opt xs i = (if i < length xs then Some (xs ! i) else None)"

subsection \<open>parseFloat and parseInt\<close>

definition digitVal :: "char \<Rightarrow> nat" where
  "digitVal c = of_char c - 48"

definition digitsToNat :: "string \<Rightarrow> nat" where
  "digitsToNat ds = foldl (\<lambda>a c. 10 * a + digitVal c) 0 ds"

definition pow10 :: "int \<Rightarrow> rat" where
  "pow10 e = (if 0 \<le> e then 10 ^ nat e else 1 / 10 ^ nat (- e))"

text \<open>The exponent part \<open>e\<close>, \<open>E\<close> with an optional sign and at least one digit; anything
  else is no exponent.\<close>

definition exponentPart :: "string \<Rightarrow> int" where
  "exponentPart s =
     (case s of
        [] \<Rightarrow> 0
      | c # t \<Rightarrow>
          if c = CHR ''e'' \<or> c = CHR ''E'' then
            (case t of
               [] \<Rightarrow> 0
             | d # u \<Rightarrow>
                 if d = CHR ''+'' then
                   (if takeWhile isDigit u = [] then 0 else int (digitsToNat (takeWhile isDigit u)))
                 else if d = CHR ''-'' then
                   (if takeWhile isDigit u = [] then 0 else - int (digitsToNat (takeWhile isDigit u)))
                 else (if takeWhile isDigit t = [] then 0 else int (digitsToNat (takeWhile isDigit t))))
          else 0)"

text \<open>The longest prefix that is an unsigned decimal literal, or \<open>Infinity\<close>.\<close>

definition parseUnsigned :: "string \<Rightarrow> jsnum" where
  "parseUnsigned s =
     (if startsWith s ''Infinity'' then PInf
      else
        let ip = takeWhile isDigit s;
            r1 = dropWhile isDigit s;
            fp = (case r1 of [] \<Rightarrow> [] | c # t \<Rightarrow> if c = CHR ''.'' then takeWhile isDigit t else []);
            r2 = (case r1 of [] \<Rightarrow> [] | c # t \<Rightarrow> if c = CHR ''.'' then dropWhile isDigit t else r1)
        in if ip = [] \<and> fp = [] then NaN
           else Fin ((of_nat (digitsToNat ip) + of_nat (digitsToNat fp) / 10 ^ length fp)
                     * pow10 (exponentPart r2)))"

definition parseFloat :: "string \<Rightarrow> jsnum" where
  "parseFloat s =
     (case dropWhile isWs s of
        [] \<Rightarrow> NaN
      | c # t \<Rightarrow>
          if c = CHR ''-'' then jneg (parseUnsigned t)
          else if c = CHR ''+'' then parseUnsigned t
          else parseUnsigned (c # t))"

text \<open>The value of a digit in a radix, when it is one.\<close>

definition radixDigit :: "nat \<Rightarrow> char \<Rightarrow> nat option" where
  "radixDigit radix c =
     (case map_of (zip ''0123456789abcdefghijklmnopqrstuvwxyz'' [0 ..< 36]) (lowerChar c) of
        None \<Rightarrow> None
      | Some v \<Rightarrow> if v < radix then Some v else None)"

definition radixDigits :: "nat \<Rightarrow> string \<Rightarrow> jsnum" where
  "radixDigits radix s =
     (let ds = takeWhile (\<lambda>c. radixDigit radix c \<noteq> None) s
      in if ds = [] then NaN
         else Fin (of_nat (foldl (\<lambda>a c. radix * a + the (radixDigit radix c)) 0 ds)))"

text \<open>\<open>parseInt(s, radix)\<close> for radix 10 or 16 (\<open>None\<close> when the call gives no radix):
  white space, a sign, \<open>0x\<close> when the radix allows it, then the digits.\<close>

definition parseIntBody :: "nat option \<Rightarrow> string \<Rightarrow> jsnum" where
  "parseIntBody radix s =
     (if radix \<noteq> Some 10 \<and> (startsWith s ''0x'' \<or> startsWith s ''0X'')
      then radixDigits 16 (drop 2 s)
      else radixDigits (case radix of None \<Rightarrow> 10 | Some r \<Rightarrow> r) s)"

definition parseInt :: "nat option \<Rightarrow> string \<Rightarrow> jsnum" where
  "parseInt radix s =
     (case dropWhile isWs s of
        [] \<Rightarrow> NaN
      | c # t \<Rightarrow>
          if c = CHR ''-'' then jneg (parseIntBody radix t)
          else if c = CHR ''+'' then parseIntBody radix t
          else parseIntBody radix (c # t))"

section \<open>Layout mapping\<close>

record padding =
  top :: jsnum
  right :: jsnum
  bottom :: jsnum
  left :: jsnum

text \<open>\<open>parsePadding\<close> of the base converter.\<close>

definition parsePadding :: "string \<Rightarrow> padding" where
  "parsePadding p =
     (let values = map parseFloat (splitWs p) in
      if length values = 1 then
        \<lparr>top = values ! 0, right = values ! 0, bottom = values ! 0, left = values ! 0\<rparr>
      else if length values = 2 then
        \<lparr>top = values ! 0, right = values ! 1, bottom = values ! 0, left = values ! 1\<rparr>
      else if length values = 4 then
        \<lparr>top = values ! 0, right = values ! 1, bottom = values ! 2, left = values ! 3\<rparr>
      else \<lparr>top = Fin 0, right = Fin 0, bottom = Fin 0, left = Fin 0\<rparr>)"

text \<open>The viewport supplied by the caller.\<close>

record viewport =
  vwidth :: jsnum
  vheight :: jsnum

text \<open>\<open>parseSize\<close> of the base converter.\<close>

definition parseSize :: "string \<Rightarrow> jsnum \<Rightarrow> jsnum" where
  "parseSize v maxSize =
     (if endsWith v ''px'' then parseFloat v
      else if endsWith v ''%'' then jmul (jdivc (parseFloat v) 100) maxSize
      else if endsWith v ''rem'' \<or> endsWith v ''em'' then jmul (parseFloat v) (Fin 16)
      else if truthy (parseFloat v) then parseFloat v else Fin 0)"

section \<open>Colours\<close>

text \<open>A colour object; the fields \<open>r\<close>, \<open>g\<close>, \<open>b\<close>, \<open>a\<close> of the source are spelled out.\<close>

record rgba =
  red :: jsnum
  green :: jsnum
  blue :: jsnum
  alpha :: jsnum

text \<open>\<open>parseInt(m[i])\<close> on a match array: \<open>parseInt(undefined)\<close> is NaN.\<close>

definition parseIntAt :: "string list \<Rightarrow> nat \<Rightarrow> jsnum" where
  "parseIntAt m i = (case nth_opt m i of None \<Rightarrow> NaN | Some s \<Rightarrow> parseInt None s)"

text \<open>\<open>colorToFigma\<close> of the base converter.\<close>

definition colorToFigma :: "string \<Rightarrow> rgba" where
  "colorToFigma color =
     (if startsWith color ''#'' then
        let hex = drop 1 color in
        \<lparr>red = jdivc (parseInt (Some 16) (slice 0 2 hex)) 255,
         green = jdivc (parseInt (Some 16) (slice 2 4 hex)) 255,
         blue = jdivc (parseInt (Some 16) (slice 4 6 hex)) 255,
         alpha = (if length hex = 8 then jdivc (parseInt (Some 16) (slice 6 8 hex)) 255
                  else Fin 1)\<rparr>
      else if startsWith color ''rgb'' \<and> matchDigits color \<noteq> [] then
        let m = matchDigits color in
        \<lparr>red = jdivc (parseIntAt m 0) 255,
         green = jdivc (parseIntAt m 1) 255,
         blue = jdivc (parseIntAt m 2) 255,
         alpha = (case nth_opt m 3 of None \<Rightarrow> Fin 1 | Some s \<Rightarrow> parseFloat s)\<rparr>
      else \<lparr>red = Fin 0, green = Fin 0, blue = Fin 0, alpha = Fin 1\<rparr>)"

section \<open>Fonts\<close>

record FontInfo =
  family :: string
  weight :: jsnum
  style :: string
  fsize :: jsnum

record FigmaFontMapping =
  figmaFamily :: string
  figmaWeight :: jsnum
  figmaStyle :: string

definition FONT_MAPPING :: "(string \<times> string) list" where
  "FONT_MAPPING =
     [(''arial'', ''Arial''),
      (''helvetica'', ''Helvetica''),
      (''times'', ''Times New Roman''),
      (''times new roman'', ''Times New Roman''),
      (''courier'', ''Courier New''),
      (''courier new'', ''Courier New''),
      (''verdana'', ''Verdana''),
      (''georgia'', ''Georgia''),
      (''palatino'', ''Palatino''),
      (''garamond'', ''Garamond''),
      (''bookman'', ''Bookman''),
      (''comic sans ms'', ''Comic Sans MS''),
      (''trebuchet ms'', ''Trebuchet MS''),
      (''arial black'', ''Arial Black''),
      (''impact'', ''Impact''),
      (''roboto'', ''Roboto''),
      (''open sans'', ''Open Sans''),
      (''lato'', ''Lato''),
      (''montserrat'', ''Montserrat''),
      (''raleway'', ''Raleway''),
      (''poppins'', ''Poppins''),
      (''source sans pro'', ''Source Sans Pro''),
      (''oswald'', ''Oswald''),
      (''ubuntu'', ''Ubuntu''),
      (''playfair display'', ''Playfair Display''),
      (''merriweather'', ''Merriweather''),
      (''pt sans'', ''PT Sans''),
      (''pt serif'', ''PT Serif''),
      (''droid sans'', ''Droid Sans''),
      (''droid serif'', ''Droid Serif''),
      (''microsoft yahei'', ''Microsoft YaHei''),
      (''simsun'', ''SimSun''),
      (''simhei'', ''SimHei''),
      (''kaiti'', ''KaiTi''),
      (''fangsong'', ''FangSong''),
      (''pingfang sc'', ''PingFang SC''),
      (''hiragino sans gb'', ''Hiragino Sans GB''),
      (''wenquanyi micro hei'', ''WenQuanYi Micro Hei'')]"

definition FIGMA_FONTS :: "string list" where
  "FIGMA_FONTS =
     [''Arial'', ''Helvetica'', ''Times New Roman'', ''Courier New'', ''Verdana'', ''Georgia'',
      ''Roboto'', ''Open Sans'', ''Lato'', ''Montserrat'', ''Inter'', ''Poppins'',
      ''Source Sans Pro'']"

text \<open>\<open>fuzzyMatchFont\<close>: the first table entry whose key contains the family or is
  contained in it, then the first tool-native family contained in it.\<close>

definition fuzzyMatchFont :: "string \<Rightarrow> string option" where
  "fuzzyMatchFont fam =
     (case List.find (\<lambda>(webFont, figmaFont). includesStr fam webFont \<or> includesStr webFont fam)
             FONT_MAPPING of
        Some (webFont, figmaFont) \<Rightarrow> Some figmaFont
      | None \<Rightarrow>
          List.find (\<lambda>figmaFont. includesStr (toLowerCase fam) (toLowerCase figmaFont))
            FIGMA_FONTS)"

text \<open>\<open>mapToFigmaFont\<close> of the font manager. No table entry is the empty string, so
  \<open>!figmaFamily\<close> is the absence of an entry.\<close>

definition mapToFigmaFont :: "FontInfo \<Rightarrow> FigmaFontMapping" where
  "mapToFigmaFont fontInfo =
     (let normalizedFamily = trim (toLowerCase (family fontInfo));
          fam = (case map_of FONT_MAPPING normalizedFamily of
                   Some f \<Rightarrow> f
                 | None \<Rightarrow>
                     (case fuzzyMatchFont normalizedFamily of
                        Some f \<Rightarrow> f
                      | None \<Rightarrow> ''Inter''));
          w0 = weight fontInfo;
          w1 = (if jlt w0 (Fin 100) then Fin 100 else w0);
          w2 = (if jgt w1 (Fin 900) then Fin 900 else w1)
      in \<lparr>figmaFamily = fam,
          figmaWeight = jmul (mathRound (jdivc w2 100)) (Fin 100),
          figmaStyle = (if style fontInfo = ''italic'' then ''italic'' else ''normal'')\<rparr>)"

section \<open>The document tree\<close>

text \<open>
  The tree that the HTML parser hands to the converter: elements with a tag name, attributes
  and child nodes, text and comments. An element is an object with an identity; \<open>nid\<close>
  stands for it, so that a verdict about an element in its document (a selector with
  combinators) is a function of the element.
\<close>

datatype node =
    Element (nid: nat) (tagName: string) (attribs: "(string \<times> string) list")
      (childNodes: "node list")
  | TextNode (data: string)
  | CommentNode (data: string)

text \<open>The \<open>type\<close> field of a node: the parser gives \<open>script\<close> and \<open>style\<close> elements a
  type of their own.\<close>

fun nodeType :: "node \<Rightarrow> string" where
  "nodeType (Element i t atts kids) =
     (if t = ''script'' then ''script'' else if t = ''style'' then ''style'' else ''tag'')"
| "nodeType (TextNode d) = ''text''"
| "nodeType (CommentNode d) = ''comment''"

fun isElement :: "node \<Rightarrow> bool" where
  "isElement (Element i t atts kids) = True"
| "isElement n = False"

text \<open>\<open>$el.attr(name)\<close>: \<open>None\<close> is \<open>undefined\<close>.\<close>

definition attr :: "node \<Rightarrow> string \<Rightarrow> string option" where
  "attr el n = map_of (attribs el) n"

text \<open>\<open>a || b\<close> on strings that may be undefined: the first one that is not empty.\<close>

definition truthyStr :: "string option \<Rightarrow> bool" where
  "truthyStr v = (case v of None \<Rightarrow> False | Some s \<Rightarrow> s \<noteq> [])"

definition orStr :: "string option \<Rightarrow> string \<Rightarrow> string" where
  "orStr v d = (case v of None \<Rightarrow> d | Some s \<Rightarrow> if s = [] then d else s)"

definition orNum :: "jsnum \<Rightarrow> jsnum \<Rightarrow> jsnum" where
  "orNum x d = (if truthy x then x else d)"


text \<open>\<open>$el.text()\<close>: the text of all descendants, comments left out.\<close>

fun textOf :: "node \<Rightarrow> string" where
  "textOf (Element i t atts kids) = concat (map textOf kids)"
| "textOf (TextNode d) = d"
| "textOf (CommentNode d) = []"

text \<open>The elements below a node, in document order, and \<open>$el.find(tag)\<close> for a tag
  name.\<close>

fun descendants :: "node \<Rightarrow> node list" where
  "descendants (Element i t atts kids) =
     concat (map (\<lambda>k. (if isElement k then [k] else []) @ descendants k) kids)"
| "descendants (TextNode d) = []"
| "descendants (CommentNode d) = []"

definition findTag :: "string \<Rightarrow> node \<Rightarrow> node list" where
  "findTag t el = filter (\<lambda>e. tagName e = t) (descendants el)"


text \<open>\<open>$el.hasClass(c)\<close>.\<close>

definition hasClass :: "node \<Rightarrow> string \<Rightarrow> bool" where
  "hasClass el c =
     (case attr el ''class'' of None \<Rightarrow> False | Some v \<Rightarrow> c \<noteq> [] \<and> c \<in> set (splitWs v))"

section \<open>Selectors and the cascade\<close>

text \<open>What a \<open>throw\<close> carries does not matter to the converter: every handler is a bare
  \<open>catch\<close>.\<close>

datatype exn = ParseError | TypeError

text \<open>\<open>selector.slice(1).split(re)[0]\<close>, where \<open>re\<close> is the class of white space and of
  the characters in \<open>,>+~[.:\<close>.\<close>

definition selectorHead :: "string \<Rightarrow> string" where
  "selectorHead selector =
     takeWhile (\<lambda>c. \<not> (isWs c \<or> c \<in> set '',>+~[.:'')) (drop 1 selector)"

text \<open>\<open>SelectorMatcher.simpleMatch\<close>, the fallback matcher.\<close>

definition simpleMatch :: "node \<Rightarrow> string \<Rightarrow> bool" where
  "simpleMatch element selector =
     (if startsWith selector ''#'' then attr element ''id'' = Some (selectorHead selector)
      else if startsWith selector ''.'' then hasClass element (selectorHead selector)
      else if selector \<noteq> [] \<and> list_all isLetter selector
        then tagName element = toLowerCase selector
      else if 3 \<le> length selector \<and> hd selector = CHR ''['' \<and> last selector = CHR '']''
              \<and> CHR '']'' \<notin> set (butlast (tl selector))
        then
          (let a = butlast (tl selector) in
           if CHR ''='' \<in> set a then
             (let parts = map (\<lambda>s. filter (\<lambda>c. c \<noteq> CHR 0x22 \<and> c \<noteq> CHR 0x27) (trim s))
                            (splitChar (CHR ''='') a)
              in attr element (parts ! 0) = Some (parts ! 1))
           else attr element a \<noteq> None)
      else False)"

text \<open>
  \<open>SelectorMatcher.matches\<close>. The selector library is a parameter: \<open>selectOne selector el\<close>
  is \<open>Inr True\<close> when the library selects the element, \<open>Inr False\<close> when it returns
  \<open>null\<close>, and \<open>Inl\<close> when it throws; then the fallback matcher decides.
\<close>

definition matches :: "(string \<Rightarrow> node \<Rightarrow> exn + bool) \<Rightarrow> node \<Rightarrow> string \<Rightarrow> bool" where
  "matches selectOne element selector =
     (case selectOne selector element of
        Inr res \<Rightarrow> res
      | Inl e \<Rightarrow> simpleMatch element selector)"

text \<open>
  \<open>SelectorMatcher.getSelectorSpecificity\<close>. The third regular expression matches a run of
  letters at the start of the selector or right after white space or one of \<open>>\<close>, \<open>+\<close>,
  \<open>~\<close>; the matches are counted by their first letters.
\<close>

fun tagStarts :: "char option \<Rightarrow> string \<Rightarrow> nat" where
  "tagStarts prev [] = 0"
| "tagStarts prev (c # cs) =
     (if isLetter c \<and> (case prev of None \<Rightarrow> True | Some p \<Rightarrow> isWs p \<or> p \<in> set ''>+~'')
      then 1 else 0) + tagStarts (Some c) cs"

definition getSelectorSpecificity :: "string \<Rightarrow> nat" where
  "getSelectorSpecificity selector =
     length (filter (\<lambda>c. c = CHR ''#'') selector) * 1000
     + length (filter (\<lambda>c. c \<in> set ''.:['') selector) * 100
     + tagStarts None selector"

text \<open>A style object: property to value.\<close>

type_synonym styles = "string \<rightharpoonup> string"

text \<open>One piece of an inline style attribute: \<open>[property, value] = rule.split(':')\<close>, both
  trimmed, assigned when neither is empty.\<close>

definition applyInline :: "styles \<Rightarrow> string \<Rightarrow> styles" where
  "applyInline st rule =
     (case map trim (splitChar (CHR '':'') rule) of
        property # v # rest \<Rightarrow> if property \<noteq> [] \<and> v \<noteq> [] then st(property \<mapsto> v) else st
      | _ \<Rightarrow> st)"

text \<open>
  \<open>computeStyles\<close>. The rule map is the list of its entries in iteration order;
  \<open>Object.assign(styles, declarations)\<close> is \<open>styles ++ declarations\<close>. The document
  handle of the converter is set, as \<open>htmlToFigma\<close> sets it before the walk, so that
  \<open>matchesSelector\<close> is \<open>SelectorMatcher.matches\<close>.
\<close>

definition computeStyles ::
  "(string \<Rightarrow> node \<Rightarrow> exn + bool) \<Rightarrow> node \<Rightarrow> (string \<times> styles) list \<Rightarrow> styles \<Rightarrow> styles" where
  "computeStyles selectOne element cssRules parentStyles =
     (let st = foldl (\<lambda>acc (selector, declarations).
                        if matches selectOne element selector then acc ++ declarations else acc)
                 parentStyles cssRules
      in case attr element ''style'' of
           None \<Rightarrow> st
         | Some inlineStyle \<Rightarrow>
             if inlineStyle = [] then st
             else foldl applyInline st (splitChar (CHR '';'') inlineStyle))"

subsection \<open>The style sheet\<close>














section \<open>Output nodes\<close>

text \<open>A value of an attribute as the SVG parser delivers it: a string, a number when the
  text is numeric, \<open>true\<close> for an attribute without a value.\<close>

datatype propval = PStr string | PNum jsnum | PTrue

datatype paint = Solid rgba | ImageFill (imageHash: string) (scaleMode: string)

record unitValue =
  unit :: string
  val :: "jsnum option"

record textStyle =
  fontFamily :: string
  fontSize :: jsnum
  fontWeight :: jsnum
  fontStyle :: string
  lineHeight :: unitValue
  letterSpacing :: unitValue

record vectorPath =
  path :: propval
  windingRule :: string

text \<open>
  The fields of an output node other than its children; \<open>None\<close> is an absent field. The
  fields \<open>type\<close>, \<open>x\<close>, \<open>y\<close> and \<open>style\<close> of the source are \<open>ntype\<close>, \<open>nx\<close>, \<open>ny\<close> and
  \<open>nstyle\<close>.
\<close>

record nodeProps =
  name :: "string option"
  ntype :: "string option"
  nx :: "jsnum option"
  ny :: "jsnum option"
  width :: "jsnum option"
  height :: "jsnum option"
  opacity :: "jsnum option"
  cornerRadius :: "jsnum option"
  fills :: "paint list option"
  strokes :: "paint list option"
  strokeWeight :: "jsnum option"
  layoutMode :: "string option"
  primaryAxisSizingMode :: "string option"
  counterAxisSizingMode :: "string option"
  itemSpacing :: "jsnum option"
  paddingLeft :: "jsnum option"
  paddingRight :: "jsnum option"
  paddingTop :: "jsnum option"
  paddingBottom :: "jsnum option"
  characters :: "string option"
  nstyle :: "textStyle option"
  vectorPaths :: "vectorPath list option"

datatype fnode = FNode (props: nodeProps) (children: "fnode list option")

text \<open>The object \<open>{}\<close>.\<close>

definition emptyProps :: nodeProps where
  "emptyProps =
     \<lparr>name = None, ntype = None, nx = None, ny = None, width = None, height = None,
      opacity = None, cornerRadius = None, fills = None, strokes = None, strokeWeight = None,
      layoutMode = None, primaryAxisSizingMode = None, counterAxisSizingMode = None,
      itemSpacing = None, paddingLeft = None, paddingRight = None, paddingTop = None,
      paddingBottom = None, characters = None, nstyle = None, vectorPaths = None\<rparr>"

text \<open>
  An object is built by statements run in order, each an assignment of fields that may be
  guarded by a condition.
\<close>

definition onlyIf :: "bool \<Rightarrow> ('a \<Rightarrow> 'a) \<Rightarrow> 'a \<Rightarrow> 'a" where
  "onlyIf c f x = (if c then f x else x)"

definition runAll :: "('a \<Rightarrow> 'a) list \<Rightarrow> 'a \<Rightarrow> 'a" where
  "runAll fs x = foldl (\<lambda>y f. f y) x fs"

text \<open>All the nodes of an output tree.\<close>

fun nodesOf :: "fnode \<Rightarrow> fnode list" where
  "nodesOf (FNode p kids) =
     FNode p kids # (case kids of None \<Rightarrow> [] | Some ks \<Rightarrow> concat (map nodesOf ks))"

subsection \<open>Layout properties\<close>

text \<open>\<open>getLayoutProperties\<close>: the object with the layout fields.\<close>

definition getLayoutProperties :: "styles \<Rightarrow> viewport \<Rightarrow> nodeProps" where
  "getLayoutProperties st vp =
     runAll
       [onlyIf (truthyStr (st ''width''))
          (\<lambda>p. p\<lparr>width := Some (parseSize (the (st ''width'')) (vwidth vp))\<rparr>),
        onlyIf (truthyStr (st ''height''))
          (\<lambda>p. p\<lparr>height := Some (parseSize (the (st ''height'')) (vheight vp))\<rparr>),
        onlyIf (orStr (st ''display'') ''block'' = ''flex'')
          (runAll
             [\<lambda>p. p\<lparr>layoutMode := Some (if st ''flexDirection'' = Some ''column''
                                         then ''VERTICAL'' else ''HORIZONTAL''),
                    primaryAxisSizingMode := Some ''AUTO'',
                    counterAxisSizingMode := Some ''AUTO''\<rparr>,
              onlyIf (truthyStr (st ''gap''))
                (\<lambda>p. p\<lparr>itemSpacing := Some (parseFloat (the (st ''gap'')))\<rparr>)]),
        onlyIf (truthyStr (st ''padding''))
          (\<lambda>p. p\<lparr>paddingLeft := Some (left (parsePadding (the (st ''padding'')))),
                 paddingRight := Some (right (parsePadding (the (st ''padding'')))),
                 paddingTop := Some (top (parsePadding (the (st ''padding'')))),
                 paddingBottom := Some (bottom (parsePadding (the (st ''padding''))))\<rparr>)]
       emptyProps"

text \<open>\<open>getElementType\<close>.\<close>

definition isSvgElement :: "string \<Rightarrow> bool" where
  "isSvgElement tag = (toLowerCase tag = ''svg'')"

definition getElementType :: "string \<Rightarrow> styles \<Rightarrow> string" where
  "getElementType tag st =
     (if isSvgElement tag then ''VECTOR''
      else if tag \<in> set [''h1'', ''h2'', ''h3'', ''h4'', ''h5'', ''h6'', ''p'', ''span'', ''a'',
                          ''label''] then ''TEXT''
      else if tag = ''img'' then ''RECTANGLE''
      else if tag \<in> set [''button'', ''input'', ''textarea'', ''select''] then ''FRAME''
      else ''FRAME'')"

subsection \<open>Text style\<close>

text \<open>The decimal digits of an integer, for the template string of the font key.\<close>

fun showNat :: "nat \<Rightarrow> string" where
  "showNat n =
     (if n < 10 then [''0123456789'' ! n]
      else showNat (n div 10) @ [''0123456789'' ! (n mod 10)])"

text \<open>The string of a number in a template; the converter builds it from results of
  \<open>parseInt\<close> only, which are integers.\<close>

fun numToString :: "jsnum \<Rightarrow> string" where
  "numToString NaN = ''NaN''"
| "numToString PInf = ''Infinity''"
| "numToString NInf = ''-Infinity''"
| "numToString (Fin q) =
     (if q < 0 then ''-'' @ showNat (nat \<lfloor>- q\<rfloor>) else showNat (nat \<lfloor>q\<rfloor>))"

text \<open>\<open>parseFontWeight\<close> of the base converter.\<close>

definition parseFontWeight :: "string option \<Rightarrow> jsnum" where
  "parseFontWeight w =
     (if \<not> truthyStr w then Fin 400
      else if parseInt None (the w) \<noteq> NaN then parseInt None (the w)
      else (case map_of [(''normal'', Fin 400), (''bold'', Fin 700), (''lighter'', Fin 300),
                         (''bolder'', Fin 700)] (toLowerCase (the w)) of
              Some n \<Rightarrow> n
            | None \<Rightarrow> Fin 400))"

definition parseLineHeight :: "string option \<Rightarrow> unitValue" where
  "parseLineHeight h =
     (if \<not> truthyStr h then \<lparr>unit = ''AUTO'', val = None\<rparr>
      else if the h = ''normal'' then \<lparr>unit = ''AUTO'', val = None\<rparr>
      else if endsWith (the h) ''px'' then \<lparr>unit = ''PIXELS'', val = Some (parseFloat (the h))\<rparr>
      else \<lparr>unit = ''PERCENT'', val = Some (jmul (parseFloat (the h)) (Fin 100))\<rparr>)"

definition parseLetterSpacing :: "string option \<Rightarrow> unitValue" where
  "parseLetterSpacing sp =
     (if \<not> truthyStr sp then \<lparr>unit = ''PIXELS'', val = Some (Fin 0)\<rparr>
      else \<lparr>unit = ''PIXELS'', val = Some (orNum (parseFloat (the sp)) (Fin 0))\<rparr>)"

text \<open>\<open>parseFloat(styles.fontSize) || 16\<close>; \<open>parseFloat(undefined)\<close> is NaN.\<close>

definition fontSizeOf :: "styles \<Rightarrow> jsnum" where
  "fontSizeOf st =
     orNum (case st ''fontSize'' of None \<Rightarrow> NaN | Some s \<Rightarrow> parseFloat s) (Fin 16)"

text \<open>\<open>getTextStyle\<close>, with the font map of the converter.\<close>

definition getTextStyle :: "(string \<rightharpoonup> FontInfo) \<Rightarrow> styles \<Rightarrow> textStyle" where
  "getTextStyle fonts st =
     (let fam = orStr (st ''fontFamily'') ''Inter'';
          fontKey = fam @ ''-'' @ numToString (parseFontWeight (st ''fontWeight'')) @ ''-''
                    @ orStr (st ''fontStyle'') ''normal'';
          fontInfo = (case fonts fontKey of
                        Some fi \<Rightarrow> fi
                      | None \<Rightarrow>
                          \<lparr>family = fam, weight = parseFontWeight (st ''fontWeight''),
                           style = orStr (st ''fontStyle'') ''normal'', fsize = fontSizeOf st\<rparr>);
          mapping = mapToFigmaFont fontInfo
      in \<lparr>fontFamily = figmaFamily mapping,
          fontSize = fontSizeOf st,
          fontWeight = figmaWeight mapping,
          fontStyle = figmaStyle mapping,
          lineHeight = parseLineHeight (st ''lineHeight''),
          letterSpacing = parseLetterSpacing (st ''letterSpacing'')\<rparr>)"

section \<open>The vector converter\<close>

text \<open>The tree that the SVG parser returns: elements with a tag name, properties and
  children, and text.\<close>

datatype svgast =
    SvgElement (svgTag: string) (properties: "(string \<times> propval) list")
      (svgChildren: "svgast list")
  | SvgText string

definition propTruthy :: "propval option \<Rightarrow> bool" where
  "propTruthy v =
     (case v of
        None \<Rightarrow> False
      | Some (PStr s) \<Rightarrow> s \<noteq> []
      | Some (PNum n) \<Rightarrow> truthy n
      | Some PTrue \<Rightarrow> True)"

text \<open>\<open>parseFloat(v)\<close> on a property: the argument is first made a string.\<close>

definition propFloat :: "propval option \<Rightarrow> jsnum" where
  "propFloat v =
     (case v of
        None \<Rightarrow> NaN
      | Some (PStr s) \<Rightarrow> parseFloat s
      | Some (PNum n) \<Rightarrow> n
      | Some PTrue \<Rightarrow> NaN)"

definition namedColors :: "(string \<times> rgba) list" where
  "namedColors =
     [(''black'', \<lparr>red = Fin 0, green = Fin 0, blue = Fin 0, alpha = Fin 1\<rparr>),
      (''white'', \<lparr>red = Fin 1, green = Fin 1, blue = Fin 1, alpha = Fin 1\<rparr>),
      (''red'', \<lparr>red = Fin 1, green = Fin 0, blue = Fin 0, alpha = Fin 1\<rparr>),
      (''green'', \<lparr>red = Fin 0, green = Fin 1, blue = Fin 0, alpha = Fin 1\<rparr>),
      (''blue'', \<lparr>red = Fin 0, green = Fin 0, blue = Fin 1, alpha = Fin 1\<rparr>)]"

text \<open>\<open>SvgConverter.parseColor\<close> on a string.\<close>

definition parseColor :: "string \<Rightarrow> rgba" where
  "parseColor color =
     (if startsWith color ''#'' then
        let hex = drop 1 color in
        \<lparr>red = jdivc (parseInt (Some 16) (slice 0 2 hex)) 255,
         green = jdivc (parseInt (Some 16) (slice 2 4 hex)) 255,
         blue = jdivc (parseInt (Some 16) (slice 4 6 hex)) 255,
         alpha = (if length hex = 8 then jdivc (parseInt (Some 16) (slice 6 8 hex)) 255
                  else Fin 1)\<rparr>
      else if startsWith color ''rgb'' \<and> matchDigits color \<noteq> [] then
        let m = matchDigits color in
        \<lparr>red = jdivc (parseIntAt m 0) 255,
         green = jdivc (parseIntAt m 1) 255,
         blue = jdivc (parseIntAt m 2) 255,
         alpha = (case nth_opt m 3 of None \<Rightarrow> Fin 1 | Some s \<Rightarrow> parseFloat s)\<rparr>
      else (case map_of namedColors (toLowerCase color) of
              Some c \<Rightarrow> c
            | None \<Rightarrow> \<lparr>red = Fin 0, green = Fin 0, blue = Fin 0, alpha = Fin 1\<rparr>))"

text \<open>
  \<open>if (v && v !== 'none') paint = [parseColor(v)]\<close> on a property of a parsed element:
  \<open>parseColor\<close> calls \<open>startsWith\<close> on its argument, which throws a type error when
  the parser has made the value a number or \<open>true\<close>. \<open>Inr None\<close> leaves the field unset.
\<close>

definition svgPaint :: "propval option \<Rightarrow> exn + paint list option" where
  "svgPaint v =
     (if propTruthy v \<and> v \<noteq> Some (PStr ''none'') then
        (case v of
           Some (PStr s) \<Rightarrow> Inr (Some [Solid (parseColor s)])
         | _ \<Rightarrow> Inl TypeError)
      else Inr None)"

definition pathToVectorPath :: "propval \<Rightarrow> vectorPath" where
  "pathToVectorPath d = \<lparr>path = d, windingRule = ''NONZERO''\<rparr>"

text \<open>\<open>props.k ? parseFloat(props.k) : 0\<close>.\<close>

definition propFloatOr0 :: "(string \<times> propval) list \<Rightarrow> string \<Rightarrow> jsnum" where
  "propFloatOr0 ps k = (if propTruthy (map_of ps k) then propFloat (map_of ps k) else Fin 0)"

text \<open>The fields of the node of a parsed element, children apart
  (\<open>convertSvgChildElement\<close> up to its last step).\<close>

definition svgChildProps :: "string \<Rightarrow> (string \<times> propval) list \<Rightarrow> exn + nodeProps" where
  "svgChildProps tag ps =
     (case svgPaint (map_of ps ''fill'') of
        Inl e \<Rightarrow> Inl e
      | Inr f \<Rightarrow>
          (case svgPaint (map_of ps ''stroke'') of
             Inl e \<Rightarrow> Inl e
           | Inr s \<Rightarrow>
               Inr (runAll
                      [onlyIf (f \<noteq> None) (\<lambda>n. n\<lparr>fills := f\<rparr>),
                       onlyIf (s \<noteq> None)
                         (\<lambda>n. n\<lparr>strokes := s,
                                strokeWeight :=
                                  Some (if propTruthy (map_of ps ''stroke-width'')
                                        then propFloat (map_of ps ''stroke-width'') else Fin 1)\<rparr>),
                       onlyIf (propTruthy (map_of ps ''opacity''))
                         (\<lambda>n. n\<lparr>opacity := Some (propFloat (map_of ps ''opacity''))\<rparr>),
                       onlyIf (tag = ''path'' \<and> propTruthy (map_of ps ''d''))
                         (\<lambda>n. n\<lparr>vectorPaths := Some [pathToVectorPath (the (map_of ps ''d''))]\<rparr>),
                       onlyIf (tag = ''rect'')
                         (\<lambda>n. n\<lparr>width := Some (propFloatOr0 ps ''width''),
                                height := Some (propFloatOr0 ps ''height''),
                                nx := Some (propFloatOr0 ps ''x''),
                                ny := Some (propFloatOr0 ps ''y'')\<rparr>),
                       onlyIf (tag = ''circle'')
                         (\<lambda>n. n\<lparr>width := Some (jmul (propFloatOr0 ps ''r'') (Fin 2)),
                                height := Some (jmul (propFloatOr0 ps ''r'') (Fin 2)),
                                nx := Some (jsub (propFloatOr0 ps ''cx'') (propFloatOr0 ps ''r'')),
                                ny := Some (jsub (propFloatOr0 ps ''cy'') (propFloatOr0 ps ''r''))\<rparr>)]
                      (emptyProps\<lparr>ntype := Some (if tag = ''g'' then ''GROUP'' else ''VECTOR''),
                                  name := Some (toUpperCase tag)\<rparr>))))"

text \<open>\<open>convertSvgChildElement\<close> and \<open>convertSvgChildren\<close>; \<open>Inl\<close> is a thrown exception,
  \<open>Inr None\<close> the result \<open>null\<close>.\<close>

fun convertSvgChildElement :: "svgast \<Rightarrow> exn + fnode option"
  and convertSvgChildren :: "svgast list \<Rightarrow> exn + fnode list" where
  "convertSvgChildElement (SvgText t) = Inr None"
| "convertSvgChildElement (SvgElement tag ps kids) =
     (let tagName = toLowerCase tag in
      if tagName = [] then Inr None
      else
        (case svgChildProps tagName ps of
           Inl e \<Rightarrow> Inl e
         | Inr p \<Rightarrow>
             if kids \<noteq> [] then
               (case convertSvgChildren kids of
                  Inl e \<Rightarrow> Inl e
                | Inr ks \<Rightarrow> Inr (Some (FNode p (Some ks))))
             else Inr (Some (FNode p None))))"
| "convertSvgChildren [] = Inr []"
| "convertSvgChildren (SvgText t # rest) = convertSvgChildren rest"
| "convertSvgChildren (SvgElement tag ps kids # rest) =
     (case convertSvgChildElement (SvgElement tag ps kids) of
        Inl e \<Rightarrow> Inl e
      | Inr r \<Rightarrow>
          (case convertSvgChildren rest of
             Inl e \<Rightarrow> Inl e
           | Inr ns \<Rightarrow> Inr (case r of None \<Rightarrow> ns | Some n \<Rightarrow> n # ns)))"

text \<open>\<open>parseLength\<close>; \<open>None\<close> is \<open>null\<close>.\<close>

definition parseLength :: "string \<Rightarrow> jsnum option" where
  "parseLength v =
     (if v = [] then None
      else if parseFloat v = NaN then None
      else if CHR ''%'' \<in> set v then None
      else Some (parseFloat v))"

definition truthyNum :: "jsnum option \<Rightarrow> bool" where
  "truthyNum v = (case v of None \<Rightarrow> False | Some n \<Rightarrow> truthy n)"

text \<open>\<open>extractPaths\<close>: the \<open>d\<close> attributes of the \<open>path\<close> elements below the element.\<close>

definition extractPaths :: "node \<Rightarrow> vectorPath list" where
  "extractPaths svg =
     map (\<lambda>e. pathToVectorPath (PStr (the (attr e ''d''))))
       (filter (\<lambda>e. truthyStr (attr e ''d'')) (findTag ''path'' svg))"

text \<open>The fields of the node of the SVG element itself, from its attributes.\<close>

definition svgRootProps :: "node \<Rightarrow> nodeProps" where
  "svgRootProps svg =
     runAll
       [onlyIf (truthyNum (parseLength (orStr (attr svg ''width'') ''100''))
                \<and> truthyNum (parseLength (orStr (attr svg ''height'') ''100'')))
          (\<lambda>n. n\<lparr>width := parseLength (orStr (attr svg ''width'') ''100''),
                 height := parseLength (orStr (attr svg ''height'') ''100'')\<rparr>),
        onlyIf (truthyStr (attr svg ''viewBox''))
          (\<lambda>n. let vb = map parseFloat (splitWsComma (the (attr svg ''viewBox'')))
                in if truthyNum (nth_opt vb 2) \<and> truthyNum (nth_opt vb 3) then
                     n\<lparr>width := nth_opt vb 2, height := nth_opt vb 3,
                       nx := Some (orNum (vb ! 0) (Fin 0)),
                       ny := Some (orNum (vb ! 1) (Fin 0))\<rparr>
                   else n),
        onlyIf (orStr (attr svg ''fill'') ''#000000'' \<noteq> ''none'')
          (\<lambda>n. n\<lparr>fills := Some [Solid (parseColor (orStr (attr svg ''fill'') ''#000000''))]\<rparr>),
        onlyIf (truthyStr (attr svg ''stroke'') \<and> attr svg ''stroke'' \<noteq> Some ''none'')
          (\<lambda>n. n\<lparr>strokes := Some [Solid (parseColor (the (attr svg ''stroke'')))],
                 strokeWeight :=
                   Some (if truthyStr (attr svg ''stroke-width'')
                         then parseFloat (the (attr svg ''stroke-width'')) else Fin 1)\<rparr>),
        onlyIf (truthyStr (attr svg ''opacity''))
          (\<lambda>n. n\<lparr>opacity := Some (parseFloat (the (attr svg ''opacity'')))\<rparr>),
        onlyIf (extractPaths svg \<noteq> [])
          (\<lambda>n. n\<lparr>vectorPaths := Some (extractPaths svg)\<rparr>)]
       (emptyProps\<lparr>ntype := Some ''VECTOR'', name := Some ''SVG''\<rparr>)"

text \<open>
  The \<open>try\<close> block of \<open>convertSvgElement\<close>. The SVG parser is a parameter: \<open>svgParse el\<close>
  is the list of children of the root that the parser returns for the markup of \<open>el\<close>,
  or \<open>Inl\<close> when it throws. The parser runs first; the children of the root are converted
  after the attributes are read.
\<close>

definition convertSvgRoot :: "(node \<Rightarrow> exn + svgast list) \<Rightarrow> node \<Rightarrow> exn + fnode" where
  "convertSvgRoot svgParse svg =
     (case svgParse svg of
        Inl e \<Rightarrow> Inl e
      | Inr parsed \<Rightarrow>
          (case (if parsed \<noteq> [] then convertSvgChildren parsed else Inr []) of
             Inl e \<Rightarrow> Inl e
           | Inr ks \<Rightarrow> Inr (FNode (svgRootProps svg) (Some ks))))"

text \<open>The node of the \<open>catch\<close> branch.\<close>

definition svgPlaceholder :: fnode where
  "svgPlaceholder =
     FNode (emptyProps\<lparr>ntype := Some ''VECTOR'', name := Some ''SVG'',
                       width := Some (Fin 100), height := Some (Fin 100),
                       fills := Some [Solid \<lparr>red = Fin (8 / 10), green = Fin (8 / 10),
                                             blue = Fin (8 / 10), alpha = Fin 1\<rparr>]\<rparr>)
       None"

text \<open>\<open>convertSvgElement\<close>; \<open>None\<close> is \<open>null\<close>.\<close>

definition convertSvgElement :: "(node \<Rightarrow> exn + svgast list) \<Rightarrow> node \<Rightarrow> fnode option" where
  "convertSvgElement svgParse svg =
     (if \<not> isElement svg \<or> toLowerCase (tagName svg) \<noteq> ''svg'' then None
      else
        (case convertSvgRoot svgParse svg of
           Inr n \<Rightarrow> Some n
         | Inl e \<Rightarrow> Some svgPlaceholder))"

section \<open>The tree builder\<close>

text \<open>An image resource; the data is a string or a buffer, a buffer being given by its
  base-64 text.\<close>

datatype imageData = StrData string | BufData string

record ImageResource =
  url :: string
  idata :: imageData
  mimeType :: string
  iwidth :: "jsnum option"
  iheight :: "jsnum option"

definition imageToBase64 :: "ImageResource \<Rightarrow> string" where
  "imageToBase64 resource =
     (case idata resource of
        StrData s \<Rightarrow>
          if startsWith s ''data:'' then s else ''data:'' @ mimeType resource @ '';base64,'' @ s
      | BufData b \<Rightarrow> ''data:'' @ mimeType resource @ '';base64,'' @ b)"

text \<open>
  The state of a converter object that the tree builder reads: the selector library and
  the SVG parser (parameters, see above), the image and font maps, and whether an image
  processor is set.
\<close>

record converter =
  selectOne :: "string \<Rightarrow> node \<Rightarrow> exn + bool"
  svgParse :: "node \<Rightarrow> exn + svgast list"
  images :: "string \<rightharpoonup> ImageResource"
  fonts :: "string \<rightharpoonup> FontInfo"
  imageProcessor :: bool

text \<open>\<open>createImageNode\<close>.\<close>

definition createImageNode :: "converter \<Rightarrow> node \<Rightarrow> ImageResource \<Rightarrow> styles \<Rightarrow> viewport \<Rightarrow> fnode" where
  "createImageNode cv img resource st vp =
     FNode (emptyProps
        \<lparr>ntype := Some ''RECTANGLE'',
         name := Some (orStr (attr img ''alt'') ''Image''),
         width := Some (if truthyNum (iwidth resource) then the (iwidth resource)
                        else parseSize (orStr (attr img ''width'') ''100'') (vwidth vp)),
         height := Some (if truthyNum (iheight resource) then the (iheight resource)
                         else parseSize (orStr (attr img ''height'') ''100'') (vheight vp)),
         fills := Some [ImageFill (if imageProcessor cv then imageToBase64 resource else [])
                          ''FILL''],
         opacity := Some (if truthyStr (st ''opacity'') then parseFloat (the (st ''opacity''))
                          else Fin 1)\<rparr>)
       None"

text \<open>The tags that \<open>convertElement\<close> skips.\<close>

definition skippedTags :: "string list" where
  "skippedTags = [''script'', ''style'', ''meta'', ''link'', ''title'', ''head'']"

text \<open>The branch of \<open>convertElement\<close> for an SVG element: the node of the vector converter
  under the name taken from the element's \<open>id\<close> or \<open>class\<close>.\<close>

definition svgBranch :: "converter \<Rightarrow> string \<Rightarrow> node \<Rightarrow> fnode option" where
  "svgBranch cv tag element =
     (if isSvgElement tag then
        (case convertSvgElement (svgParse cv) element of
           None \<Rightarrow> None
         | Some svgNode \<Rightarrow>
             Some (FNode ((props svgNode)
                            \<lparr>name := Some (orStr (attr element ''id'')
                                             (orStr (attr element ''class'') ''SVG''))\<rparr>)
                     (children svgNode)))
      else None)"

text \<open>The branch for an image whose source is in the image map.\<close>

definition imgBranch :: "converter \<Rightarrow> string \<Rightarrow> node \<Rightarrow> styles \<Rightarrow> viewport \<Rightarrow> fnode option" where
  "imgBranch cv tag element st vp =
     (if tag = ''img'' \<and> truthyStr (attr element ''src'') then
        (case images cv (the (attr element ''src'')) of
           None \<Rightarrow> None
         | Some resource \<Rightarrow> Some (createImageNode cv element resource st vp))
      else None)"

text \<open>The text child that an element without converted children gets from its trimmed
  text.\<close>

definition textChildren :: "converter \<Rightarrow> node \<Rightarrow> styles \<Rightarrow> fnode list" where
  "textChildren cv element st =
     (let text = trim (textOf element) in
      if text \<noteq> [] then
        [FNode (emptyProps\<lparr>ntype := Some ''TEXT'', characters := Some text,
                           nstyle := Some (getTextStyle (fonts cv) st)\<rparr>) None]
      else [])"

text \<open>The last part of \<open>convertElement\<close>: the fields of the node of the element, from its
  styles, and the node with the list of its children. The \<open>type\<close> of the node is that of
  \<open>getElementType\<close> throughout.\<close>

definition elementProps :: "string \<Rightarrow> styles \<Rightarrow> viewport \<Rightarrow> nodeProps" where
  "elementProps tag st vp =
     runAll
       [onlyIf (truthyStr (st ''backgroundColor''))
          (\<lambda>n. n\<lparr>fills := Some [Solid (colorToFigma (the (st ''backgroundColor'')))]\<rparr>),
        onlyIf (truthyStr (st ''color'') \<and> getElementType tag st = ''TEXT'')
          (\<lambda>n. n\<lparr>fills := Some [Solid (colorToFigma (the (st ''color'')))]\<rparr>),
        onlyIf (truthyStr (st ''borderRadius''))
          (\<lambda>n. n\<lparr>cornerRadius := Some (parseFloat (the (st ''borderRadius'')))\<rparr>),
        onlyIf (st ''opacity'' \<noteq> None)
          (\<lambda>n. n\<lparr>opacity := Some (parseFloat (the (st ''opacity'')))\<rparr>)]
       ((getLayoutProperties st vp)\<lparr>name := Some tag, ntype := Some (getElementType tag st)\<rparr>)"

definition buildNode :: "string \<Rightarrow> styles \<Rightarrow> viewport \<Rightarrow> fnode list \<Rightarrow> fnode" where
  "buildNode tag st vp kids =
     (if kids \<noteq> [] then
        (if getElementType tag st = ''TEXT'' then
           FNode ((elementProps tag st vp)
                    \<lparr>characters :=
                       Some (concat (map (\<lambda>c. case characters (props c) of
                                                None \<Rightarrow> [] | Some s \<Rightarrow> s)
                               (filter (\<lambda>c. ntype (props c) = Some ''TEXT'') kids)))\<rparr>)
             None
         else FNode (elementProps tag st vp) (Some kids))
      else FNode (elementProps tag st vp) None)"

text \<open>
  \<open>convertElement\<close>, and its loop over the element children (\<open>$element.children()\<close> holds
  the child nodes that are elements). \<open>None\<close> is \<open>null\<close>.
\<close>

fun convertElement :: "converter \<Rightarrow> (string \<times> styles) list \<Rightarrow> viewport \<Rightarrow> styles \<Rightarrow> node \<Rightarrow> fnode option"
  and convertChildren :: "converter \<Rightarrow> (string \<times> styles) list \<Rightarrow> viewport \<Rightarrow> styles \<Rightarrow> node list \<Rightarrow> fnode list"
  where
  "convertElement cv cssRules vp parentStyles (TextNode d) = None"
| "convertElement cv cssRules vp parentStyles (CommentNode d) = None"
| "convertElement cv cssRules vp parentStyles (Element i t atts kids) =
     (if nodeType (Element i t atts kids) \<noteq> ''tag'' then None
      else
        (let tag = toLowerCase t;
             computedStyles = computeStyles (selectOne cv) (Element i t atts kids) cssRules parentStyles
         in if tag \<in> set skippedTags then None
            else
              (case svgBranch cv tag (Element i t atts kids) of
                 Some svgNode \<Rightarrow> Some svgNode
               | None \<Rightarrow>
                   (case imgBranch cv tag (Element i t atts kids) computedStyles vp of
                      Some imgNode \<Rightarrow> Some imgNode
                    | None \<Rightarrow>
                        (let converted = convertChildren cv cssRules vp computedStyles kids
                         in Some (buildNode tag computedStyles vp
                                    (if converted = []
                                     then textChildren cv (Element i t atts kids) computedStyles
                                     else converted)))))))"
| "convertChildren cv cssRules vp parentStyles [] = []"
| "convertChildren cv cssRules vp parentStyles (c # cs) =
     (if isElement c then
        (case convertElement cv cssRules vp parentStyles c of
           None \<Rightarrow> convertChildren cv cssRules vp parentStyles cs
         | Some n \<Rightarrow> n # convertChildren cv cssRules vp parentStyles cs)
      else convertChildren cv cssRules vp parentStyles cs)"





section \<open>Notions used in the statements\<close>

text \<open>The value that an inline style attribute declares for a property, read by the
  parsing of \<open>computeStyles\<close> on its own: that of the last piece \<open>property:value\<close> with
  this property and a value.\<close>

definition inlineValue :: "string \<Rightarrow> string \<Rightarrow> string option" where
  "inlineValue inlineStyle p = foldl applyInline Map.empty (splitChar (CHR '';'') inlineStyle) p"



subsection \<open>Values of the parameters in the examples\<close>

text \<open>
  The selector library on the selectors of the examples, which are a single id or a
  single tag name: its verdict there is that of the fallback matcher.
\<close>

definition basicSelect :: "string \<Rightarrow> node \<Rightarrow> exn + bool" where
  "basicSelect selector element = Inr (simpleMatch element selector)"


definition numericFillSvg :: "node \<Rightarrow> exn + svgast list" where
  "numericFillSvg el =
     Inr [SvgElement ''svg'' []
            [SvgElement ''g'' [] [SvgElement ''rect'' [(''fill'', PNum (Fin 123))] []]]]"

text \<open>A converter without images and fonts, whose SVG parser rejects its input, and a
  viewport.\<close>

definition exampleConverter :: converter where
  "exampleConverter =
     \<lparr>selectOne = basicSelect, svgParse = (\<lambda>el. Inl ParseError), images = Map.empty,
      fonts = Map.empty, imageProcessor = False\<rparr>"

definition exampleViewport :: viewport where
  "exampleViewport = \<lparr>vwidth = Fin 800, vheight = Fin 600\<rparr>"


section \<open>Properties\<close>

subsection \<open>Splitting at white space\<close>

lemma splitWs_token:
  "\<forall>ch\<in>set t. \<not> isWs ch \<Longrightarrow> splitWs t = [t]"
  by (induction t) auto

lemma splitWs_token_sep:
  "\<forall>ch\<in>set t. \<not> isWs ch \<Longrightarrow> isWs w \<Longrightarrow>
     splitWs (t @ w # rest) = t # splitWs (dropWhile isWs rest)"
  by (induction t) auto

lemma isWs_space: "isWs (CHR '' '')"
  by (simp add: isWs_def)

subsection \<open>Padding shorthand\<close>

text \<open>
  C5. Padding shorthand expansion. For values \<open>a\<close>, \<open>b\<close>, \<open>c\<close>, \<open>d\<close> (non-empty, free of
  white space): one value fills all four sides; two values set (vertical, horizontal);
  four values set (top, right, bottom, left) in that order; a padding string \<open>p\<close> with any
  other number of values yields all-zero padding. In particular \<open>10px\<close> gives 10 on every
  side, \<open>10px 20px\<close> gives top 10, right 20, bottom 10, left 20, and \<open>1 2 3 4\<close> gives
  top 1, right 2, bottom 3, left 4. Each value is read by \<open>parseFloat\<close>.
\<close>

theorem parsePadding_expansion:
  assumes a: "a \<noteq> [] \<and> (\<forall>ch\<in>set a. \<not> isWs ch)"
      and b: "b \<noteq> [] \<and> (\<forall>ch\<in>set b. \<not> isWs ch)"
      and c: "c \<noteq> [] \<and> (\<forall>ch\<in>set c. \<not> isWs ch)"
      and d: "d \<noteq> [] \<and> (\<forall>ch\<in>set d. \<not> isWs ch)"
      and other: "length (splitWs p) \<noteq> 1 \<and> length (splitWs p) \<noteq> 2 \<and> length (splitWs p) \<noteq> 4"
  shows "parsePadding a =
           \<lparr>top = parseFloat a, right = parseFloat a, bottom = parseFloat a, left = parseFloat a\<rparr>
       \<and> parsePadding (a @ '' '' @ b) =
           \<lparr>top = parseFloat a, right = parseFloat b, bottom = parseFloat a, left = parseFloat b\<rparr>
       \<and> parsePadding (a @ '' '' @ b @ '' '' @ c @ '' '' @ d) =
           \<lparr>top = parseFloat a, right = parseFloat b, bottom = parseFloat c, left = parseFloat d\<rparr>
       \<and> parsePadding p = \<lparr>top = Fin 0, right = Fin 0, bottom = Fin 0, left = Fin 0\<rparr>
       \<and> parsePadding ''10px'' = \<lparr>top = Fin 10, right = Fin 10, bottom = Fin 10, left = Fin 10\<rparr>
       \<and> parsePadding ''10px 20px'' =
           \<lparr>top = Fin 10, right = Fin 20, bottom = Fin 10, left = Fin 20\<rparr>
       \<and> parsePadding ''1 2 3 4'' = \<lparr>top = Fin 1, right = Fin 2, bottom = Fin 3, left = Fin 4\<rparr>"
proof -
  have s1: "splitWs a = [a]"
    using a by (simp add: splitWs_token)
  have s2: "splitWs (a @ '' '' @ b) = [a, b]"
    using a b splitWs_token_sep[of a "CHR '' ''" b]
    by (cases b) (auto simp: isWs_space splitWs_token)
  have s3: "splitWs (c @ '' '' @ d) = [c, d]"
    using c d splitWs_token_sep[of c "CHR '' ''" d]
    by (cases d) (auto simp: isWs_space splitWs_token)
  have s3': "splitWs (b @ '' '' @ c @ '' '' @ d) = [b, c, d]"
    using b c s3 splitWs_token_sep[of b "CHR '' ''" "c @ '' '' @ d"]
    by (cases c) (auto simp: isWs_space)
  have s4: "splitWs (a @ '' '' @ b @ '' '' @ c @ '' '' @ d) = [a, b, c, d]"
    using a b s3' splitWs_token_sep[of a "CHR '' ''" "b @ '' '' @ c @ '' '' @ d"]
    by (cases b) (auto simp: isWs_space)
  have e1: "parsePadding ''10px'' =
      \<lparr>top = Fin 10, right = Fin 10, bottom = Fin 10, left = Fin 10\<rparr>"
    by code_simp
  have e2: "parsePadding ''10px 20px'' =
      \<lparr>top = Fin 10, right = Fin 20, bottom = Fin 10, left = Fin 20\<rparr>"
    by code_simp
  have e3: "parsePadding ''1 2 3 4'' =
      \<lparr>top = Fin 1, right = Fin 2, bottom = Fin 3, left = Fin 4\<rparr>"
    by code_simp
  have p1: "parsePadding a =
      \<lparr>top = parseFloat a, right = parseFloat a, bottom = parseFloat a, left = parseFloat a\<rparr>"
    unfolding parsePadding_def Let_def s1 by simp
  have p2: "parsePadding (a @ '' '' @ b) =
      \<lparr>top = parseFloat a, right = parseFloat b, bottom = parseFloat a, left = parseFloat b\<rparr>"
    unfolding parsePadding_def Let_def s2 by simp
  have p4: "parsePadding (a @ '' '' @ b @ '' '' @ c @ '' '' @ d) =
      \<lparr>top = parseFloat a, right = parseFloat b, bottom = parseFloat c, left = parseFloat d\<rparr>"
    unfolding parsePadding_def Let_def s4 by simp
  have p0: "parsePadding p = \<lparr>top = Fin 0, right = Fin 0, bottom = Fin 0, left = Fin 0\<rparr>"
    using other unfolding parsePadding_def Let_def by simp
  from p1 p2 p4 p0 e1 e2 e3 show ?thesis
    by blast
qed

theorem parsePadding_expansion_witness:
  "list_all (\<lambda>ch. \<not> isWs ch) (''7px'' @ ''8em'' @ ''9'' @ ''.5'')
   \<and> (length (splitWs ''1 2 3'') \<noteq> 1 \<and> length (splitWs ''1 2 3'') \<noteq> 2
        \<and> length (splitWs ''1 2 3'') \<noteq> 4)
   \<and> parsePadding ''7px'' = \<lparr>top = Fin 7, right = Fin 7, bottom = Fin 7, left = Fin 7\<rparr>
   \<and> parsePadding ''7px 8em'' = \<lparr>top = Fin 7, right = Fin 8, bottom = Fin 7, left = Fin 8\<rparr>
   \<and> parsePadding ''7px 8em 9 .5'' =
       \<lparr>top = Fin 7, right = Fin 8, bottom = Fin 9, left = Fin (1 / 2)\<rparr>
   \<and> parsePadding ''1 2 3'' = \<lparr>top = Fin 0, right = Fin 0, bottom = Fin 0, left = Fin 0\<rparr>"
proof -
  have pf: "parseFloat ''7px'' = Fin 7" "parseFloat ''8em'' = Fin 8" "parseFloat ''9'' = Fin 9"
    "parseFloat ''.5'' = Fin (1 / 2)"
    by code_simp+
  have len: "length (splitWs ''1 2 3'') \<noteq> 1 \<and> length (splitWs ''1 2 3'') \<noteq> 2
      \<and> length (splitWs ''1 2 3'') \<noteq> 4"
    by (simp add: isWs_def)
  have tk: "''7px'' \<noteq> [] \<and> (\<forall>ch\<in>set ''7px''. \<not> isWs ch)"
     "''8em'' \<noteq> [] \<and> (\<forall>ch\<in>set ''8em''. \<not> isWs ch)"
     "''9'' \<noteq> [] \<and> (\<forall>ch\<in>set ''9''. \<not> isWs ch)"
     "''.5'' \<noteq> [] \<and> (\<forall>ch\<in>set ''.5''. \<not> isWs ch)"
    by (simp_all add: isWs_def)
  have ap: "''7px'' @ '' '' @ ''8em'' = ''7px 8em''"
    "''7px'' @ '' '' @ ''8em'' @ '' '' @ ''9'' @ '' '' @ ''.5'' = ''7px 8em 9 .5''"
    by simp_all
  have la: "list_all (\<lambda>ch. \<not> isWs ch) (''7px'' @ ''8em'' @ ''9'' @ ''.5'')"
    by (simp add: isWs_def)
  from parsePadding_expansion[OF tk len] la len show ?thesis
    unfolding ap pf by blast
qed

subsection \<open>Colour parsing\<close>

text \<open>
  C3. The colour parser on the inputs the claim names. \<open>#ff0000\<close> is read as opaque red
  and a name outside the recognised forms as opaque black. On \<open>rgba(0,0,0,0.5)\<close> the
  digit runs are \<open>0\<close>, \<open>0\<close>, \<open>0\<close>, \<open>0\<close>, \<open>5\<close>, and the alpha channel is read from the
  fourth run alone: it is 0, not 0.5. The 3-digit form \<open>#f00\<close> is cut into the two-digit
  slices \<open>f0\<close>, \<open>0\<close> and the empty string: its blue channel is NaN. \<open>rgb(300,0,0)\<close> has
  a red channel above 1.
\<close>

theorem colorToFigma_rgba_alpha:
  "colorToFigma ''#ff0000'' = \<lparr>red = Fin 1, green = Fin 0, blue = Fin 0, alpha = Fin 1\<rparr>
   \<and> colorToFigma ''tomato'' = \<lparr>red = Fin 0, green = Fin 0, blue = Fin 0, alpha = Fin 1\<rparr>
   \<and> matchDigits ''rgba(0,0,0,0.5)'' = [''0'', ''0'', ''0'', ''0'', ''5'']
   \<and> colorToFigma ''rgba(0,0,0,0.5)'' =
       \<lparr>red = Fin 0, green = Fin 0, blue = Fin 0, alpha = Fin 0\<rparr>
   \<and> colorToFigma ''#f00'' =
       \<lparr>red = Fin (240 / 255), green = Fin 0, blue = NaN, alpha = Fin 1\<rparr>
   \<and> colorToFigma ''rgb(300,0,0)'' =
       \<lparr>red = Fin (300 / 255), green = Fin 0, blue = Fin 0, alpha = Fin 1\<rparr>"
  by code_simp

subsection \<open>Font weight\<close>

text \<open>
  C9. For every finite numeric font weight \<open>q\<close>, the mapped weight is \<open>100 * k\<close> for an
  integer \<open>k\<close> between 1 and 9, and it lies within 50 of \<open>q\<close> clamped to the range
  from 100 to 900: the weight is clamped and rounded to the nearest multiple of 100.
  The infinite weights map to the ends of the range. In particular 650 maps to 700,
  50 to 100 and 1000 to 900.
\<close>

theorem mapToFigmaFont_weight:
  "(\<exists>k::int. 1 \<le> k \<and> k \<le> 9
      \<and> figmaWeight (mapToFigmaFont (fi\<lparr>weight := Fin q\<rparr>)) = Fin (of_int (100 * k))
      \<and> \<bar>of_int (100 * k) - max 100 (min 900 q)\<bar> \<le> 50)
   \<and> figmaWeight (mapToFigmaFont (fi\<lparr>weight := PInf\<rparr>)) = Fin 900
   \<and> figmaWeight (mapToFigmaFont (fi\<lparr>weight := NInf\<rparr>)) = Fin 100
   \<and> figmaWeight (mapToFigmaFont (fi\<lparr>weight := Fin 650\<rparr>)) = Fin 700
   \<and> figmaWeight (mapToFigmaFont (fi\<lparr>weight := Fin 50\<rparr>)) = Fin 100
   \<and> figmaWeight (mapToFigmaFont (fi\<lparr>weight := Fin 1000\<rparr>)) = Fin 900"
proof -
  define c where "c = max 100 (min 900 q)"
  define k where "k = \<lfloor>c / 100 + 1 / 2\<rfloor>"
  have c: "100 \<le> c" "c \<le> 900"
    by (auto simp: c_def)
  have w: "figmaWeight (mapToFigmaFont (fi\<lparr>weight := Fin q\<rparr>)) = Fin (of_int k * 100)"
    by (auto simp: mapToFigmaFont_def Let_def jgt_def k_def c_def max_def min_def)
  have k1: "1 \<le> k"
    using c unfolding k_def by linarith
  have k9: "k \<le> 9"
    using c unfolding k_def by linarith
  have lo: "of_int k \<le> c / 100 + 1 / 2"
    unfolding k_def by (rule of_int_floor_le)
  have hi: "c / 100 + 1 / 2 < of_int k + 1"
    unfolding k_def by linarith
  have "\<bar>of_int (100 * k) - c\<bar> \<le> 50"
    using lo hi by (simp add: abs_le_iff field_simps)
  then have general: "\<exists>k::int. 1 \<le> k \<and> k \<le> 9
      \<and> figmaWeight (mapToFigmaFont (fi\<lparr>weight := Fin q\<rparr>)) = Fin (of_int (100 * k))
      \<and> \<bar>of_int (100 * k) - max 100 (min 900 q)\<bar> \<le> 50"
    using w k1 k9 unfolding c_def by (intro exI[of _ k]) (simp add: mult.commute)
  have special: "figmaWeight (mapToFigmaFont (fi\<lparr>weight := PInf\<rparr>)) = Fin 900"
    "figmaWeight (mapToFigmaFont (fi\<lparr>weight := NInf\<rparr>)) = Fin 100"
    "figmaWeight (mapToFigmaFont (fi\<lparr>weight := Fin 650\<rparr>)) = Fin 700"
    "figmaWeight (mapToFigmaFont (fi\<lparr>weight := Fin 50\<rparr>)) = Fin 100"
    "figmaWeight (mapToFigmaFont (fi\<lparr>weight := Fin 1000\<rparr>)) = Fin 900"
    by (simp_all add: mapToFigmaFont_def Let_def jgt_def floor_unique)
  show ?thesis
    using general special by blast
qed

subsection \<open>Objects built by statements\<close>

lemma onlyIf_sel: "g (onlyIf c f x) = (if c then g (f x) else g x)"
  by (simp add: onlyIf_def)

lemma runAll_Nil: "runAll [] x = x"
  by (simp add: runAll_def)

lemma runAll_Cons: "runAll (f # fs) x = runAll fs (f x)"
  by (simp add: runAll_def)




subsection \<open>The nodes of the vector converter and of the tree builder\<close>









subsection \<open>Skipped tags\<close>




subsection \<open>Malformed SVG\<close>

lemma svg_tag_is_tag:
  assumes "toLowerCase t = ''svg''"
  shows "t \<noteq> ''script'' \<and> t \<noteq> ''style'' \<and> toLowerCase t \<notin> set skippedTags"
proof -
  have "toLowerCase ''script'' \<noteq> ''svg''" "toLowerCase ''style'' \<noteq> ''svg''"
    by (simp_all add: toLowerCase_def)
  then show ?thesis
    using assms by (auto simp: skippedTags_def)
qed

text \<open>An exception travels up from any depth of the parsed tree to the \<open>try\<close> block.\<close>

lemma parse_failure_raises:
  "parse svg = Inl e \<Longrightarrow> convertSvgRoot parse svg = Inl e"
  by (simp add: convertSvgRoot_def)

lemma child_failure_raises:
  "x \<in> set xs \<Longrightarrow> convertSvgChildElement x = Inl e \<Longrightarrow> \<exists>e'. convertSvgChildren xs = Inl e'"
proof (induction xs)
  case Nil
  then show ?case by simp
next
  case (Cons y ys)
  show ?case
  proof (cases y)
    case (SvgText t)
    then have "x \<noteq> y" using Cons.prems(2) by auto
    then show ?thesis using Cons SvgText by auto
  next
    case (SvgElement tag ps kids)
    show ?thesis
    proof (cases "x = y")
      case True
      then show ?thesis using Cons.prems(2) SvgElement by simp
    next
      case False
      then obtain e' where "convertSvgChildren ys = Inl e'"
        using Cons by auto
      then show ?thesis using SvgElement by (auto split: sum.splits)
    qed
  qed
qed

lemma nested_failure_raises:
  "convertSvgChildren kids = Inl e \<Longrightarrow> \<exists>e'. convertSvgChildElement (SvgElement tag ps kids) = Inl e' \<or> toLowerCase tag = []"
  by (cases kids) (auto simp: Let_def split: sum.splits)

text \<open>
  C7. For every SVG element, if converting it raises an exception, in the parser or at any
  depth of the parsed tree, the vector converter returns the placeholder: one Vector node
  without children, 100 wide and 100 high, with one flat grey fill. The exception does not
  reach the caller: \<open>convertElement\<close> returns this node under the name taken from the
  element, and the conversion of the document goes on.
\<close>

theorem convertSvgElement_fail_soft:
  assumes "isElement svg"
      and "toLowerCase (tagName svg) = ''svg''"
      and "convertSvgRoot (svgParse cv) svg = Inl e"
  shows "convertSvgElement (svgParse cv) svg = Some svgPlaceholder
       \<and> ntype (props svgPlaceholder) = Some ''VECTOR''
       \<and> width (props svgPlaceholder) = Some (Fin 100)
       \<and> height (props svgPlaceholder) = Some (Fin 100)
       \<and> fills (props svgPlaceholder)
           = Some [Solid \<lparr>red = Fin (8 / 10), green = Fin (8 / 10), blue = Fin (8 / 10),
                           alpha = Fin 1\<rparr>]
       \<and> children svgPlaceholder = None
       \<and> convertElement cv cssRules vp parentStyles svg
           = Some (FNode ((props svgPlaceholder)
                            \<lparr>name := Some (orStr (attr svg ''id'')
                                             (orStr (attr svg ''class'') ''SVG''))\<rparr>)
                     None)"
proof -
  have ph: "convertSvgElement (svgParse cv) svg = Some svgPlaceholder"
    using assms by (simp add: convertSvgElement_def)
  obtain i t atts kids where svg: "svg = Element i t atts kids"
    using assms(1) by (cases svg) auto
  have t: "t \<noteq> ''script''" "t \<noteq> ''style''" "toLowerCase t \<notin> set skippedTags"
    using svg_tag_is_tag[of t] assms(2) svg by auto
  have br: "svgBranch cv (toLowerCase t) svg
      = Some (FNode ((props svgPlaceholder)
                            \<lparr>name := Some (orStr (attr svg ''id'')
                                             (orStr (attr svg ''class'') ''SVG''))\<rparr>)
                     None)"
  proof -
    have ls: "toLowerCase ''svg'' = ''svg''"
      by code_simp
    have lt: "toLowerCase t = ''svg''"
      using assms(2) svg by simp
    show ?thesis
      using ph by (simp add: svgBranch_def isSvgElement_def lt ls svgPlaceholder_def)
  qed
  have conv: "convertElement cv cssRules vp parentStyles svg
           = Some (FNode ((props svgPlaceholder)
                            \<lparr>name := Some (orStr (attr svg ''id'')
                                             (orStr (attr svg ''class'') ''SVG''))\<rparr>)
                     None)"
    using t br unfolding svg by (simp add: Let_def)
  show ?thesis
    using ph conv by (simp add: svgPlaceholder_def emptyProps_def)
qed

theorem convertSvgElement_fail_soft_witness:
  "convertSvgRoot numericFillSvg (Element 1 ''svg'' [(''id'', ''logo'')] []) = Inl TypeError
   \<and> convertElement (exampleConverter\<lparr>svgParse := numericFillSvg\<rparr>) [] exampleViewport Map.empty
        (Element 1 ''svg'' [(''id'', ''logo'')] [])
      = Some (FNode ((props svgPlaceholder)\<lparr>name := Some ''logo''\<rparr>) None)
   \<and> map (name \<circ> props)
        (nodesOf (the (convertElement exampleConverter [] exampleViewport Map.empty
           (Element 1 ''div'' []
              [Element 2 ''SVG'' [] [], Element 3 ''p'' [] [TextNode ''after'']]))))
      = [Some ''div'', Some ''SVG'', Some ''p'']"
proof -
  let ?svg = "Element 1 ''svg'' [(''id'', ''logo'')] []"
  let ?cv = "exampleConverter\<lparr>svgParse := numericFillSvg\<rparr>"
  have r: "convertSvgRoot (svgParse ?cv) ?svg = Inl TypeError"
    by code_simp
  have h: "isElement ?svg" "toLowerCase (tagName ?svg) = ''svg''"
    by code_simp+
  have nm: "orStr (attr ?svg ''id'') (orStr (attr ?svg ''class'') ''SVG'') = ''logo''"
    by code_simp
  have doc: "map (name \<circ> props)
        (nodesOf (the (convertElement exampleConverter [] exampleViewport Map.empty
           (Element 1 ''div'' []
              [Element 2 ''SVG'' [] [], Element 3 ''p'' [] [TextNode ''after'']]))))
      = [Some ''div'', Some ''SVG'', Some ''p'']"
    by code_simp
  from convertSvgElement_fail_soft[OF h r, of "[]" exampleViewport Map.empty] r doc
  show ?thesis
    unfolding nm by (simp add: exampleConverter_def del: convertElement.simps)
qed

subsection \<open>The cascade\<close>

lemma applyInline_at:
  "applyInline st x p = (case applyInline Map.empty x p of Some v \<Rightarrow> Some v | None \<Rightarrow> st p)"
  by (auto simp: applyInline_def split: list.splits)

lemma foldl_applyInline_at:
  "foldl applyInline st xs p =
     (case foldl applyInline Map.empty xs p of Some v \<Rightarrow> Some v | None \<Rightarrow> st p)"
proof (induction xs rule: rev_induct)
  case Nil
  then show ?case by simp
next
  case (snoc x xs)
  show ?case
    using snoc applyInline_at[of "foldl applyInline st xs" x p]
      applyInline_at[of "foldl applyInline Map.empty xs" x p]
    by (simp split: option.splits)
qed


lemma rules_untouched:
  "\<forall>(s, d) \<in> set after. matches sel element s \<longrightarrow> d p = None \<Longrightarrow>
   foldl (\<lambda>acc (selector, declarations).
            if matches sel element selector then acc ++ declarations else acc) acc0 after p
   = acc0 p"
  by (induction after arbitrary: acc0) (auto simp: map_add_def split: option.splits)



text \<open>
  C1 (as amended). For every node and parsed rule set, when matched rules declare the same
  property, style resolution gives the value of the matched rule that comes last in the
  iteration order of the rule set, whatever the specificities of the selectors are
  (provided the inline style does not declare the property).
\<close>

theorem computeStyles_last_rule_wins:
  assumes "cssRules = before @ (selector, declarations) # after"
      and "matches sel element selector"
      and "declarations p = Some v"
      and "\<forall>(s, d) \<in> set after. matches sel element s \<longrightarrow> d p = None"
      and "(case attr element ''style'' of None \<Rightarrow> None | Some i \<Rightarrow> inlineValue i p) = None"
  shows "computeStyles sel element cssRules parentStyles p = Some v"
proof -
  let ?step = "\<lambda>acc (selector, declarations).
            if matches sel element selector then acc ++ declarations else acc"
  have "foldl ?step parentStyles cssRules p
        = (foldl ?step parentStyles before ++ declarations) p"
    using assms(1,2) rules_untouched[OF assms(4)] by simp
  then have r: "foldl ?step parentStyles cssRules p = Some v"
    using assms(3) by simp
  show ?thesis
  proof (cases "attr element ''style''")
    case None
    then show ?thesis using r by (simp add: computeStyles_def)
  next
    case (Some i)
    then have "inlineValue i p = None" using assms(5) by simp
    then have "foldl applyInline st0 (splitChar (CHR '';'') i) p = st0 p" for st0
      using foldl_applyInline_at[of st0 "splitChar (CHR '';'') i" p]
      unfolding inlineValue_def by simp
    then show ?thesis
      using r Some unfolding computeStyles_def Let_def by simp
  qed
qed

theorem computeStyles_last_rule_wins_witness:
  "getSelectorSpecificity ''div'' < getSelectorSpecificity ''#a''
   \<and> matches basicSelect (Element 1 ''div'' [(''id'', ''a'')] []) ''div''
   \<and> computeStyles basicSelect (Element 1 ''div'' [(''id'', ''a'')] [])
        ([(''#a'', [''color'' \<mapsto> ''red''])] @ (''div'', [''color'' \<mapsto> ''blue''])
           # [(''p'', [''color'' \<mapsto> ''grey''])])
        Map.empty ''color''
      = Some ''blue''"
proof -
  let ?el = "Element 1 ''div'' [(''id'', ''a'')] []"
  have sp: "getSelectorSpecificity ''div'' < getSelectorSpecificity ''#a''"
    by code_simp
  have m: "matches basicSelect ?el ''div''"
    by code_simp
  have d: "[''color'' \<mapsto> ''blue''] ''color'' = Some ''blue''"
    by simp
  have nm: "\<not> matches basicSelect ?el ''p''"
    by code_simp
  have af: "\<forall>(s, d) \<in> set [(''p'', [''color'' \<mapsto> ''grey''])].
              matches basicSelect ?el s \<longrightarrow> d ''color'' = None"
    using nm by simp
  have il: "(case attr ?el ''style'' of None \<Rightarrow> None | Some i \<Rightarrow> inlineValue i ''color'') = None"
    by code_simp
  from computeStyles_last_rule_wins[where before = "[(''#a'', [''color'' \<mapsto> ''red''])]"
      and selector = "''div''" and declarations = "[''color'' \<mapsto> ''blue'']"
      and after = "[(''p'', [''color'' \<mapsto> ''grey''])]" and sel = basicSelect
      and element = ?el and p = "''color''" and v = "''blue''" and parentStyles = Map.empty,
      OF refl m d af il]
    sp m
  show ?thesis
    by blast
qed

text \<open>
  The claim as stated fails: with the rules \<open>#a\<close> (specificity 1000, colour red) and then
  \<open>div\<close> (specificity 1, colour blue), both matching the element, the resolved colour is
  blue, that of the rule of lower specificity.
\<close>

theorem computeStyles_specificity_counterexample:
  "getSelectorSpecificity ''div'' < getSelectorSpecificity ''#a''
   \<and> matches basicSelect (Element 1 ''div'' [(''id'', ''a'')] []) ''#a''
   \<and> matches basicSelect (Element 1 ''div'' [(''id'', ''a'')] []) ''div''
   \<and> computeStyles basicSelect (Element 1 ''div'' [(''id'', ''a'')] [])
        [(''#a'', [''color'' \<mapsto> ''red'']), (''div'', [''color'' \<mapsto> ''blue''])] Map.empty ''color''
      = Some ''blue''
   \<and> computeStyles basicSelect (Element 1 ''div'' [(''id'', ''a'')] [])
        [(''#a'', [''color'' \<mapsto> ''red'']), (''div'', [''color'' \<mapsto> ''blue''])] Map.empty ''color''
      \<noteq> Some ''red''"
  by code_simp

subsection \<open>Layout properties\<close>



lemma layout_flex:
  assumes "st ''display'' = Some ''flex''"
  shows "layoutMode (getLayoutProperties st vp)
           = Some (if st ''flexDirection'' = Some ''column'' then ''VERTICAL'' else ''HORIZONTAL'')
       \<and> primaryAxisSizingMode (getLayoutProperties st vp) = Some ''AUTO''
       \<and> counterAxisSizingMode (getLayoutProperties st vp) = Some ''AUTO''
       \<and> itemSpacing (getLayoutProperties st vp)
           = (if truthyStr (st ''gap'') then Some (parseFloat (the (st ''gap''))) else None)"
proof -
  have d: "orStr (st ''display'') ''block'' = ''flex''"
    using assms by (simp add: orStr_def)
  show ?thesis
    unfolding getLayoutProperties_def
    by (simp add: d runAll_Nil runAll_Cons onlyIf_sel[of layoutMode]
          onlyIf_sel[of primaryAxisSizingMode] onlyIf_sel[of counterAxisSizingMode]
          onlyIf_sel[of itemSpacing] emptyProps_def)
qed






subsection \<open>The walk over the children of the body\<close>








end
